theory Spec2Isabelle
  imports Complex_Main
begin

section \<open>The recognition endpoint of the student authentication service\<close>

text \<open>
  This theory embeds \<^verbatim>\<open>RecognitionViewSet.recognize\<close> of
  \<^verbatim>\<open>src/recognition/views.py\<close> together with the \<^verbatim>\<open>RecognitionLog\<close> model of
  \<^verbatim>\<open>src/recognition/models.py\<close> and the part of the \<^verbatim>\<open>Student\<close> model of
  \<^verbatim>\<open>src/users/models.py\<close> that the endpoint reads.

  Modelling decisions.
  \<^item> OpenCV and InsightFace are external. An image is represented by what they do on it:
    \<^verbatim>\<open>cv2.imread\<close>/\<^verbatim>\<open>cv2.resize\<close> raise, \<^verbatim>\<open>face_analyzer.get\<close> raises, or
    \<^verbatim>\<open>face_analyzer.get\<close> returns a list of faces.
  \<^item> numpy floats are idealised as reals. The one non-finite value exact arithmetic can
    produce, \<^verbatim>\<open>0/0 = nan\<close> for an embedding of norm zero, is kept explicit.
  \<^item> Python exceptions are values; every \<^verbatim>\<open>try\<close>/\<^verbatim>\<open>except\<close> of the source is a case
    distinction of the model.
  \<^item> The database rows written by \<^verbatim>\<open>RecognitionLog.objects.create\<close> and the calls made to
    \<^verbatim>\<open>face_analyzer.get\<close> are effects; both are threaded through a \<open>world\<close> record.
  \<^item> The two readings of \<^verbatim>\<open>time.time()\<close> are inputs.
  \<^item> Writing the temporary file, token issuance and the database itself are assumed not to
    fail.
\<close>

subsection \<open>Data\<close>

type_synonym embedding = "real list"

record face =
  det_score :: real
  embedding :: embedding

text \<open>\<^verbatim>\<open>MemoryError\<close> is a subclass of \<^verbatim>\<open>Exception\<close>; \<open>EngineError\<close> stands for
  every other exception raised by OpenCV or InsightFace.\<close>

datatype py_exception = MemoryError | ValueError | EngineError

datatype image =
    Unreadable
  | EngineRaises py_exception
  | Detects "face list"

text \<open>\<^verbatim>\<open>Student.face_image\<close>: \<open>None\<close> is the empty file name \<^verbatim>\<open>''\<close> that Django stores
  when no file is attached.\<close>

record student =
  student_id :: nat
  face_image :: "image option"

record recognition_log =
  log_student :: "student option"
  log_confidence :: real
  log_success :: bool
  log_image :: image
  log_processing_time :: "real option"

record world =
  logs :: "recognition_log list"
  engine_calls :: "image list"

record env =
  threshold :: real
  db :: "student list"
  primary_init :: "py_exception option"
  fallback_init :: "py_exception option"
  start_time :: real
  end_time :: real

record request =
  req_image :: "image option"

datatype response =
    BadRequest
  | NoGallery
  | ServerError
  | ResourceExhausted
  | NoFace
  | Accepted student real
  | NoMatch real

subsection \<open>Similarity and confidence (lines 302--308)\<close>

datatype npfloat = Finite real | NaN

definition dot :: "real list \<Rightarrow> real list \<Rightarrow> real" where
  "dot xs ys = sum_list (map (\<lambda>(x, y). x * y) (zip xs ys))"

definition sum_squares :: "real list \<Rightarrow> real" where
  "sum_squares xs = sum_list (map (\<lambda>x. x * x) xs)"

definition linalg_norm :: "real list \<Rightarrow> real" where
  "linalg_norm xs = sqrt (sum_squares xs)"

text \<open>\<^verbatim>\<open>np.dot\<close> raises \<^verbatim>\<open>ValueError\<close> on vectors of different length; a zero
  denominator gives \<^verbatim>\<open>nan\<close> (numpy warns, it does not raise).\<close>

definition cosine_similarity :: "embedding \<Rightarrow> embedding \<Rightarrow> py_exception + npfloat" where
  "cosine_similarity main_face_embedding student_embedding =
     (if length main_face_embedding \<noteq> length student_embedding then Inl ValueError
      else if linalg_norm main_face_embedding * linalg_norm student_embedding = 0 then Inr NaN
      else Inr (Finite (dot main_face_embedding student_embedding /
                  (linalg_norm main_face_embedding * linalg_norm student_embedding))))"

fun to_confidence :: "npfloat \<Rightarrow> npfloat" where
  "to_confidence (Finite similarity) = Finite ((similarity + 1) / 2)"
| "to_confidence NaN = NaN"

definition confidence_of :: "embedding \<Rightarrow> embedding \<Rightarrow> py_exception + npfloat" where
  "confidence_of main_face_embedding student_embedding =
     (case cosine_similarity main_face_embedding student_embedding of
        Inl e \<Rightarrow> Inl e
      | Inr similarity \<Rightarrow> Inr (to_confidence similarity))"

subsection \<open>Selecting the main face (lines 279 and 299)\<close>

text \<open>Python's \<^verbatim>\<open>max(faces, key=...)\<close> keeps the first maximal element: the running
  maximum is replaced only by a strictly larger key.\<close>

fun max_det_score :: "face \<Rightarrow> face list \<Rightarrow> face" where
  "max_det_score m [] = m"
| "max_det_score m (f # fs) = max_det_score (if det_score m < det_score f then f else m) fs"

subsection \<open>The gallery scan (lines 282--321)\<close>

record scan_state =
  best_match :: "student option"
  highest_confidence :: real
  gallery_calls :: "image list"

definition scan_init :: scan_state where
  "scan_init = \<lparr>best_match = None, highest_confidence = 0, gallery_calls = []\<rparr>"

text \<open>The body of the \<^verbatim>\<open>try\<close> block for one student. Every exception is caught by
  \<^verbatim>\<open>except Exception\<close> and the loop continues.\<close>

fun compare_student :: "embedding \<Rightarrow> student \<Rightarrow> image \<Rightarrow> scan_state \<Rightarrow> scan_state" where
  "compare_student main_face_embedding s Unreadable st = st"
| "compare_student main_face_embedding s (EngineRaises e) st =
     st\<lparr>gallery_calls := gallery_calls st @ [EngineRaises e]\<rparr>"
| "compare_student main_face_embedding s (Detects student_faces) st =
     (let st1 = st\<lparr>gallery_calls := gallery_calls st @ [Detects student_faces]\<rparr> in
      case student_faces of
        [] \<Rightarrow> st1
      | f # fs \<Rightarrow>
          (case confidence_of main_face_embedding (embedding (max_det_score f fs)) of
             Inl e \<Rightarrow> st1
           | Inr NaN \<Rightarrow> st1
           | Inr (Finite confidence) \<Rightarrow>
               if highest_confidence st1 < confidence
               then st1\<lparr>highest_confidence := confidence, best_match := Some s\<rparr>
               else st1))"

text \<open>\<^verbatim>\<open>student.face_image.path\<close> is evaluated before the \<^verbatim>\<open>try\<close>; on a field without a
  file it raises \<^verbatim>\<open>ValueError\<close>, which leaves the loop.\<close>

fun scan_gallery :: "embedding \<Rightarrow> student list \<Rightarrow> scan_state \<Rightarrow> py_exception + scan_state" where
  "scan_gallery main_face_embedding [] st = Inr st"
| "scan_gallery main_face_embedding (s # ss) st =
     (case face_image s of
        None \<Rightarrow> Inl ValueError
      | Some img \<Rightarrow> scan_gallery main_face_embedding ss (compare_student main_face_embedding s img st))"

subsection \<open>The endpoint (lines 186--425)\<close>

text \<open>\<^verbatim>\<open>Student.objects.exclude(face_image='')\<close>\<close>

definition students :: "env \<Rightarrow> student list" where
  "students e = filter (\<lambda>s. face_image s \<noteq> None) (db e)"

text \<open>Lines 227--241: the preferred model, and on any exception the default model; an
  exception of the fallback propagates.\<close>

definition init_face_analyzer :: "env \<Rightarrow> py_exception + unit" where
  "init_face_analyzer e =
     (case primary_init e of
        None \<Rightarrow> Inr ()
      | Some _ \<Rightarrow> (case fallback_init e of None \<Rightarrow> Inr () | Some x \<Rightarrow> Inl x))"

text \<open>Lines 399--425: the two outer handlers.\<close>

fun outer_except :: "py_exception \<Rightarrow> response" where
  "outer_except MemoryError = ResourceExhausted"
| "outer_except _ = ServerError"

definition create_log :: "recognition_log \<Rightarrow> world \<Rightarrow> world" where
  "create_log r w = w\<lparr>logs := logs w @ [r]\<rparr>"

definition call_engine :: "image \<Rightarrow> world \<Rightarrow> world" where
  "call_engine img w = w\<lparr>engine_calls := engine_calls w @ [img]\<rparr>"

text \<open>Lines 323--397: the decision after the scan.\<close>

definition decide :: "env \<Rightarrow> image \<Rightarrow> scan_state \<Rightarrow> world \<Rightarrow> response \<times> world" where
  "decide e image_file st w =
     (let processing_time = end_time e - start_time e in
      case best_match st of
        Some bm \<Rightarrow>
          if threshold e \<le> highest_confidence st
          then (Accepted bm (highest_confidence st),
                create_log \<lparr>log_student = Some bm, log_confidence = highest_confidence st,
                            log_success = True, log_image = image_file,
                            log_processing_time = Some processing_time\<rparr> w)
          else (NoMatch (highest_confidence st),
                create_log \<lparr>log_student = None, log_confidence = highest_confidence st,
                            log_success = False, log_image = image_file,
                            log_processing_time = Some processing_time\<rparr> w)
      | None \<Rightarrow>
          (NoMatch 0,
           create_log \<lparr>log_student = None, log_confidence = 0,
                       log_success = False, log_image = image_file,
                       log_processing_time = Some processing_time\<rparr> w))"

definition recognize :: "env \<Rightarrow> request \<Rightarrow> world \<Rightarrow> response \<times> world" where
  "recognize e req w =
     (case req_image req of
        None \<Rightarrow> (BadRequest, w)
      | Some image_file \<Rightarrow>
          if students e = [] then (NoGallery, w)
          else
            (case init_face_analyzer e of
               Inl x \<Rightarrow> (outer_except x, w)
             | Inr _ \<Rightarrow>
                 (case image_file of
                    Unreadable \<Rightarrow> (ServerError, w)
                  | EngineRaises x \<Rightarrow> (ServerError, call_engine image_file w)
                  | Detects [] \<Rightarrow>
                      (NoFace,
                       create_log \<lparr>log_student = None, log_confidence = 0,
                                   log_success = False, log_image = image_file,
                                   log_processing_time = None\<rparr>
                         (call_engine image_file w))
                  | Detects (f # fs) \<Rightarrow>
                      (let w1 = call_engine image_file w;
                           main_face_embedding = embedding (max_det_score f fs)
                       in case scan_gallery main_face_embedding (students e) scan_init of
                            Inl x \<Rightarrow> (outer_except x, w1)
                          | Inr st \<Rightarrow>
                              decide e image_file st
                                (w1\<lparr>engine_calls := engine_calls w1 @ gallery_calls st\<rparr>)))))"

text \<open>The rows a request adds to the audit table, and the engine calls it makes.\<close>

definition new_logs :: "env \<Rightarrow> request \<Rightarrow> world \<Rightarrow> recognition_log list" where
  "new_logs e req w = drop (length (logs w)) (logs (snd (recognize e req w)))"


subsection \<open>What the loop body computes for one candidate\<close>

text \<open>The finite confidence that lines 291--308 compute for a reference image, or \<open>None\<close>
  when the body is left before the comparison of line 310 can succeed (an exception, no
  face, or \<^verbatim>\<open>nan\<close>).\<close>

fun image_confidence :: "embedding \<Rightarrow> image \<Rightarrow> real option" where
  "image_confidence main_face_embedding Unreadable = None"
| "image_confidence main_face_embedding (EngineRaises e) = None"
| "image_confidence main_face_embedding (Detects []) = None"
| "image_confidence main_face_embedding (Detects (f # fs)) =
     (case confidence_of main_face_embedding (embedding (max_det_score f fs)) of
        Inr (Finite confidence) \<Rightarrow> Some confidence
      | _ \<Rightarrow> None)"

definition student_confidence :: "embedding \<Rightarrow> student \<Rightarrow> real option" where
  "student_confidence main_face_embedding s =
     (case face_image s of None \<Rightarrow> None | Some img \<Rightarrow> image_confidence main_face_embedding img)"

text \<open>The reference failures of one gallery entry: the image cannot be decoded, the engine
  raises on it, or it shows no face.\<close>

fun bad_reference :: "image \<Rightarrow> bool" where
  "bad_reference Unreadable = True"
| "bad_reference (EngineRaises e) = True"
| "bad_reference (Detects fs) = (fs = [])"

text \<open>The reference images on which the scan reaches \<^verbatim>\<open>face_analyzer.get\<close>.\<close>

definition readable_images :: "student list \<Rightarrow> image list" where
  "readable_images ss = filter (\<lambda>img. img \<noteq> Unreadable) (List.map_filter face_image ss)"

subsection \<open>Concrete inputs\<close>

text \<open>A probe with one face of embedding \<open>(1,0,0,0)\<close>, and reference images whose single
  face scores 0.20, 0.40, 0.50 and 0 against it.\<close>

definition probe_face :: face where
  "probe_face = \<lparr>det_score = 9/10, embedding = [1, 0, 0, 0]\<rparr>"

definition probe_image :: image where
  "probe_image = Detects [probe_face]"

definition image_20 :: image where
  "image_20 = Detects [\<lparr>det_score = 8/10, embedding = [-3, 4, 0, 0]\<rparr>]"

definition image_40 :: image where
  "image_40 = Detects [\<lparr>det_score = 8/10, embedding = [-1, 2, 2, 4]\<rparr>]"

definition image_50 :: image where
  "image_50 = Detects [\<lparr>det_score = 8/10, embedding = [0, 1, 0, 0]\<rparr>]"

definition image_50b :: image where
  "image_50b = Detects [\<lparr>det_score = 7/10, embedding = [0, 0, 2, 0]\<rparr>]"

definition image_opposite :: image where
  "image_opposite = Detects [\<lparr>det_score = 8/10, embedding = [-1, 0, 0, 0]\<rparr>]"

definition image_opposite2 :: image where
  "image_opposite2 = Detects [\<lparr>det_score = 8/10, embedding = [-2, 0, 0, 0]\<rparr>]"

definition student_20 :: student where
  "student_20 = \<lparr>student_id = 1, face_image = Some image_20\<rparr>"

definition student_40 :: student where
  "student_40 = \<lparr>student_id = 2, face_image = Some image_40\<rparr>"

definition student_50 :: student where
  "student_50 = \<lparr>student_id = 3, face_image = Some image_50\<rparr>"

definition student_50b :: student where
  "student_50b = \<lparr>student_id = 4, face_image = Some image_50b\<rparr>"

definition student_corrupt :: student where
  "student_corrupt = \<lparr>student_id = 5, face_image = Some Unreadable\<rparr>"

definition student_opposite :: student where
  "student_opposite = \<lparr>student_id = 6, face_image = Some image_opposite\<rparr>"

definition student_opposite2 :: student where
  "student_opposite2 = \<lparr>student_id = 7, face_image = Some image_opposite2\<rparr>"

text \<open>The default of \<^verbatim>\<open>FACE_RECOGNITION_THRESHOLD\<close> (line 208), and a stricter setting.\<close>

definition default_threshold :: real where
  "default_threshold = 35 / 100"

definition strict_threshold :: real where
  "strict_threshold = 60 / 100"

definition env_of :: "real \<Rightarrow> student list \<Rightarrow> env" where
  "env_of thr ss = \<lparr>threshold = thr, db = ss, primary_init = None, fallback_init = None,
                     start_time = 100, end_time = 103\<rparr>"

definition world0 :: world where
  "world0 = \<lparr>logs = [], engine_calls = []\<rparr>"

definition request_of :: "image \<Rightarrow> request" where
  "request_of img = \<lparr>req_image = Some img\<rparr>"

section \<open>Properties\<close>

subsection \<open>Arithmetic of the similarity\<close>







lemma sqrt_25: "sqrt 25 = 5"
  by (rule real_sqrt_unique) simp_all



subsection \<open>One step of the scan\<close>

lemma compare_student_highest:
  "highest_confidence (compare_student e s img st) =
     (case image_confidence e img of
        None \<Rightarrow> highest_confidence st
      | Some c \<Rightarrow> if highest_confidence st < c then c else highest_confidence st)"
proof (cases img)
  case (Detects fs)
  then show ?thesis
    by (cases fs) (simp_all add: Let_def split: sum.splits npfloat.splits)
qed simp_all

lemma compare_student_best:
  "best_match (compare_student e s img st) =
     (case image_confidence e img of
        None \<Rightarrow> best_match st
      | Some c \<Rightarrow> if highest_confidence st < c then Some s else best_match st)"
proof (cases img)
  case (Detects fs)
  then show ?thesis
    by (cases fs) (simp_all add: Let_def split: sum.splits npfloat.splits)
qed simp_all

lemma compare_student_calls:
  "gallery_calls (compare_student e s img st) =
     gallery_calls st @ (if img = Unreadable then [] else [img])"
proof (cases img)
  case (Detects fs)
  then show ?thesis
    by (cases fs) (simp_all add: Let_def split: sum.splits npfloat.splits)
qed simp_all

subsection \<open>The whole scan\<close>

lemma scan_gallery_returns:
  "\<forall>s\<in>set ss. face_image s \<noteq> None \<Longrightarrow> \<exists>st'. scan_gallery e ss st = Inr st'"
  by (induction ss arbitrary: st) auto

lemma scan_gallery_append:
  "scan_gallery e (xs @ ys) st =
     (case scan_gallery e xs st of Inl x \<Rightarrow> Inl x | Inr st' \<Rightarrow> scan_gallery e ys st')"
  by (induction xs arbitrary: st) (simp_all split: option.splits)

lemma scan_gallery_calls:
  "scan_gallery e ss st = Inr st' \<Longrightarrow> gallery_calls st' = gallery_calls st @ readable_images ss"
proof (induction ss arbitrary: st)
  case Nil
  then show ?case by (simp add: readable_images_def)
next
  case (Cons s ss)
  from Cons.prems obtain img where img: "face_image s = Some img"
    by (cases "face_image s") simp_all
  with Cons.prems have "scan_gallery e ss (compare_student e s img st) = Inr st'" by simp
  from Cons.IH [OF this] show ?case
    using img by (simp add: compare_student_calls readable_images_def)
qed

lemma scan_gallery_same_selection:
  assumes "scan_gallery e ss st1 = Inr r1" and "scan_gallery e ss st2 = Inr r2"
      and "best_match st1 = best_match st2" and "highest_confidence st1 = highest_confidence st2"
  shows "best_match r1 = best_match r2 \<and> highest_confidence r1 = highest_confidence r2"
  using assms
proof (induction ss arbitrary: st1 st2)
  case Nil
  then show ?case by simp
next
  case (Cons s ss)
  from Cons.prems(1) obtain img where img: "face_image s = Some img"
    by (cases "face_image s") simp_all
  have a: "scan_gallery e ss (compare_student e s img st1) = Inr r1"
    using Cons.prems(1) img by simp
  have b: "scan_gallery e ss (compare_student e s img st2) = Inr r2"
    using Cons.prems(2) img by simp
  show ?case
    by (rule Cons.IH [OF a b])
       (simp_all add: compare_student_best compare_student_highest Cons.prems(3,4)
          split: option.splits)
qed

lemma scan_gallery_no_improvement:
  assumes "scan_gallery e ss st = Inr st'"
      and "\<forall>s\<in>set ss. \<forall>c. student_confidence e s = Some c \<longrightarrow> c \<le> highest_confidence st"
  shows "best_match st' = best_match st \<and> highest_confidence st' = highest_confidence st"
  using assms
proof (induction ss arbitrary: st)
  case Nil
  then show ?case by simp
next
  case (Cons s ss)
  from Cons.prems(1) obtain img where img: "face_image s = Some img"
    by (cases "face_image s") simp_all
  have le: "\<forall>c. image_confidence e img = Some c \<longrightarrow> c \<le> highest_confidence st"
    using Cons.prems(2) img by (simp add: student_confidence_def)
  have h: "highest_confidence (compare_student e s img st) = highest_confidence st"
    using le by (auto simp: compare_student_highest split: option.splits)
  have b: "best_match (compare_student e s img st) = best_match st"
    using le by (auto simp: compare_student_best split: option.splits)
  have a: "scan_gallery e ss (compare_student e s img st) = Inr st'"
    using Cons.prems(1) img by simp
  have "best_match st' = best_match (compare_student e s img st)
        \<and> highest_confidence st' = highest_confidence (compare_student e s img st)"
    using a Cons.prems(2) by (intro Cons.IH) (simp_all add: h)
  then show ?case by (simp add: h b)
qed

lemma scan_gallery_first_maximum:
  assumes "scan_gallery e (pre @ s # post) st = Inr st'"
      and "student_confidence e s = Some m"
      and "highest_confidence st < m"
      and "\<forall>t\<in>set pre. \<forall>c. student_confidence e t = Some c \<longrightarrow> c < m"
      and "\<forall>t\<in>set post. \<forall>c. student_confidence e t = Some c \<longrightarrow> c \<le> m"
  shows "best_match st' = Some s \<and> highest_confidence st' = m"
  using assms
proof (induction pre arbitrary: st)
  case Nil
  from Nil.prems(2) obtain img where img: "face_image s = Some img"
    and c: "image_confidence e img = Some m"
    by (auto simp: student_confidence_def split: option.splits)
  have a: "scan_gallery e post (compare_student e s img st) = Inr st'"
    using Nil.prems(1) img by simp
  have h: "highest_confidence (compare_student e s img st) = m"
    using c Nil.prems(3) by (simp add: compare_student_highest)
  have b: "best_match (compare_student e s img st) = Some s"
    using c Nil.prems(3) by (simp add: compare_student_best)
  from scan_gallery_no_improvement [OF a] Nil.prems(5) show ?case
    by (simp add: h b)
next
  case (Cons t pre)
  from Cons.prems(1) obtain img where img: "face_image t = Some img"
    by (cases "face_image t") simp_all
  have a: "scan_gallery e (pre @ s # post) (compare_student e t img st) = Inr st'"
    using Cons.prems(1) img by simp
  have lt: "\<forall>c. image_confidence e img = Some c \<longrightarrow> c < m"
    using Cons.prems(4) img by (simp add: student_confidence_def)
  have h: "highest_confidence (compare_student e t img st) < m"
    using lt Cons.prems(3) by (auto simp: compare_student_highest split: option.splits)
  show ?case
    using a Cons.prems(2) h Cons.prems(4,5) by (intro Cons.IH) simp_all
qed

text \<open>The tracker after a scan: an upper bound of every candidate confidence, and either
  untouched or the confidence of the tracked candidate.\<close>

lemma scan_gallery_tracker:
  assumes "scan_gallery e ss st = Inr st'"
  shows "(\<forall>s\<in>set ss. \<forall>c. student_confidence e s = Some c \<longrightarrow> c \<le> highest_confidence st')
         \<and> highest_confidence st \<le> highest_confidence st'
         \<and> ((best_match st' = best_match st \<and> highest_confidence st' = highest_confidence st)
            \<or> (\<exists>s\<in>set ss. best_match st' = Some s
                  \<and> student_confidence e s = Some (highest_confidence st')
                  \<and> highest_confidence st < highest_confidence st'))"
  using assms
proof (induction ss arbitrary: st)
  case Nil
  then show ?case by simp
next
  case (Cons s ss)
  from Cons.prems obtain img where img: "face_image s = Some img"
    by (cases "face_image s") simp_all
  let ?st1 = "compare_student e s img st"
  have a: "scan_gallery e ss ?st1 = Inr st'"
    using Cons.prems img by simp
  note ih = Cons.IH [OF a]
  have sc: "student_confidence e s = image_confidence e img"
    using img by (simp add: student_confidence_def)
  have mono: "highest_confidence st \<le> highest_confidence ?st1"
    by (simp add: compare_student_highest split: option.splits)
  have cover: "\<forall>c. student_confidence e s = Some c \<longrightarrow> c \<le> highest_confidence ?st1"
    by (simp add: sc compare_student_highest split: option.splits)
  have step: "(best_match ?st1 = best_match st \<and> highest_confidence ?st1 = highest_confidence st)
       \<or> (best_match ?st1 = Some s \<and> student_confidence e s = Some (highest_confidence ?st1)
           \<and> highest_confidence st < highest_confidence ?st1)"
    by (auto simp: sc compare_student_highest compare_student_best split: option.splits)
  from ih have ub: "\<forall>t\<in>set ss. \<forall>c. student_confidence e t = Some c \<longrightarrow> c \<le> highest_confidence st'"
    and m2: "highest_confidence ?st1 \<le> highest_confidence st'"
    and alt: "(best_match st' = best_match ?st1 \<and> highest_confidence st' = highest_confidence ?st1)
            \<or> (\<exists>t\<in>set ss. best_match st' = Some t
                  \<and> student_confidence e t = Some (highest_confidence st')
                  \<and> highest_confidence ?st1 < highest_confidence st')"
    by blast+
  have c1: "\<forall>t\<in>set (s # ss). \<forall>c. student_confidence e t = Some c \<longrightarrow> c \<le> highest_confidence st'"
    using ub cover m2 by auto
  have c2: "highest_confidence st \<le> highest_confidence st'"
    using mono m2 by linarith
  have c3: "(best_match st' = best_match st \<and> highest_confidence st' = highest_confidence st)
            \<or> (\<exists>t\<in>set (s # ss). best_match st' = Some t
                  \<and> student_confidence e t = Some (highest_confidence st')
                  \<and> highest_confidence st < highest_confidence st')"
    using alt
  proof
    assume same: "best_match st' = best_match ?st1 \<and> highest_confidence st' = highest_confidence ?st1"
    from step show ?thesis
    proof
      assume "best_match ?st1 = best_match st \<and> highest_confidence ?st1 = highest_confidence st"
      with same show ?thesis by simp
    next
      assume "best_match ?st1 = Some s \<and> student_confidence e s = Some (highest_confidence ?st1)
           \<and> highest_confidence st < highest_confidence ?st1"
      with same show ?thesis by simp
    qed
  next
    assume "\<exists>t\<in>set ss. best_match st' = Some t
                  \<and> student_confidence e t = Some (highest_confidence st')
                  \<and> highest_confidence ?st1 < highest_confidence st'"
    then obtain t where "t \<in> set ss" "best_match st' = Some t"
       "student_confidence e t = Some (highest_confidence st')"
       "highest_confidence ?st1 < highest_confidence st'" by blast
    with mono show ?thesis by auto
  qed
  from c1 c2 c3 show ?case by blast
qed

subsection \<open>The endpoint around the scan\<close>

lemma students_registered: "\<forall>s\<in>set (students e). face_image s \<noteq> None"
  by (simp add: students_def)

lemma recognize_reaches_scan:
  assumes "req_image req = Some (Detects (f # fs))"
      and "students e \<noteq> []"
      and "init_face_analyzer e = Inr ()"
  shows "\<exists>st. scan_gallery (embedding (max_det_score f fs)) (students e) scan_init = Inr st
           \<and> recognize e req w =
               decide e (Detects (f # fs)) st
                 (w\<lparr>engine_calls := engine_calls w @ Detects (f # fs) # gallery_calls st\<rparr>)"
proof -
  obtain st where st: "scan_gallery (embedding (max_det_score f fs)) (students e) scan_init = Inr st"
    using scan_gallery_returns [OF students_registered] by blast
  have "recognize e req w =
          decide e (Detects (f # fs)) st
            (w\<lparr>engine_calls := engine_calls w @ Detects (f # fs) # gallery_calls st\<rparr>)"
    using assms st by (simp add: recognize_def call_engine_def)
  with st show ?thesis by blast
qed

lemma scan_from_init:
  assumes "scan_gallery e ss scan_init = Inr st"
  shows "(\<forall>s\<in>set ss. \<forall>c. student_confidence e s = Some c \<longrightarrow> c \<le> highest_confidence st)
         \<and> ((best_match st = None \<and> highest_confidence st = 0)
            \<or> (\<exists>s\<in>set ss. best_match st = Some s
                  \<and> student_confidence e s = Some (highest_confidence st)
                  \<and> 0 < highest_confidence st))"
  using scan_gallery_tracker [OF assms] by (simp add: scan_init_def)

lemma fst_decide:
  "fst (decide e img st w) =
     (case best_match st of
        Some bm \<Rightarrow> if threshold e \<le> highest_confidence st
                   then Accepted bm (highest_confidence st) else NoMatch (highest_confidence st)
      | None \<Rightarrow> NoMatch 0)"
  by (simp add: decide_def Let_def split: option.splits)

lemma logs_decide:
  "logs (snd (decide e img st w)) = logs w @
     [\<lparr>log_student = (case best_match st of
                        Some bm \<Rightarrow> if threshold e \<le> highest_confidence st then Some bm else None
                      | None \<Rightarrow> None),
       log_confidence = (case best_match st of Some bm \<Rightarrow> highest_confidence st | None \<Rightarrow> 0),
       log_success = (case best_match st of
                        Some bm \<Rightarrow> threshold e \<le> highest_confidence st
                      | None \<Rightarrow> False),
       log_image = img,
       log_processing_time = Some (end_time e - start_time e)\<rparr>]"
  by (simp add: decide_def create_log_def Let_def split: option.splits)


text \<open>Every path of the endpoint appends at most one row, and a row with \<open>success = False\<close>
  or written on a path that does not accept carries no student.\<close>

lemma recognize_logs:
  "\<exists>new. logs (snd (recognize e req w)) = logs w @ new \<and> length new \<le> 1
     \<and> (\<forall>r\<in>set new. \<not> log_success r \<or> (\<forall>s c. fst (recognize e req w) \<noteq> Accepted s c)
            \<longrightarrow> log_student r = None)"
proof (cases "req_image req")
  case None
  then show ?thesis by (simp add: recognize_def)
next
  case (Some image_file)
  show ?thesis
  proof (cases "students e = []")
    case True
    with Some show ?thesis by (simp add: recognize_def)
  next
    case ne: False
    show ?thesis
    proof (cases "init_face_analyzer e")
      case (Inl x)
      with Some ne show ?thesis by (simp add: recognize_def)
    next
      case (Inr u)
      show ?thesis
      proof (cases image_file)
        case Unreadable
        with Some ne Inr show ?thesis by (simp add: recognize_def)
      next
        case (EngineRaises x)
        with Some ne Inr show ?thesis by (simp add: recognize_def call_engine_def)
      next
        case (Detects faces)
        show ?thesis
        proof (cases faces)
          case Nil
          with Some ne Inr Detects show ?thesis
            by (simp add: recognize_def call_engine_def create_log_def)
        next
          case (Cons f fs)
          from Some Detects Cons have r: "req_image req = Some (Detects (f # fs))" by simp
          from Inr have i: "init_face_analyzer e = Inr ()" by simp
          from recognize_reaches_scan [OF r ne i, of w] obtain st where
            "recognize e req w = decide e (Detects (f # fs)) st
                 (w\<lparr>engine_calls := engine_calls w @ Detects (f # fs) # gallery_calls st\<rparr>)"
            by blast
          then show ?thesis
            by (simp add: logs_decide fst_decide split: option.splits)
        qed
      qed
    qed
  qed
qed

lemma new_logs_append:
  "logs (snd (recognize e req w)) = logs w @ new \<Longrightarrow> new_logs e req w = new"
  by (simp add: new_logs_def)

subsection \<open>Evaluation at the concrete inputs\<close>

lemma probe_embedding: "embedding (max_det_score probe_face []) = [1, 0, 0, 0]"
  by (simp add: probe_face_def)

lemma confidence_20: "student_confidence [1, 0, 0, 0] student_20 = Some (1 / 5)"
  by (simp add: student_confidence_def student_20_def image_20_def confidence_of_def cosine_similarity_def
        linalg_norm_def sum_squares_def dot_def sqrt_25)

lemma confidence_40: "student_confidence [1, 0, 0, 0] student_40 = Some (2 / 5)"
  by (simp add: student_confidence_def student_40_def image_40_def confidence_of_def cosine_similarity_def
        linalg_norm_def sum_squares_def dot_def sqrt_25)

lemma confidence_50: "student_confidence [1, 0, 0, 0] student_50 = Some (1 / 2)"
  by (simp add: student_confidence_def student_50_def image_50_def confidence_of_def cosine_similarity_def
        linalg_norm_def sum_squares_def dot_def)

lemma confidence_50b: "student_confidence [1, 0, 0, 0] student_50b = Some (1 / 2)"
  by (simp add: student_confidence_def student_50b_def image_50b_def confidence_of_def cosine_similarity_def
        linalg_norm_def sum_squares_def dot_def)

lemma confidence_corrupt: "student_confidence [1, 0, 0, 0] student_corrupt = None"
  by (simp add: student_confidence_def student_corrupt_def)

lemma confidence_opposite: "student_confidence [1, 0, 0, 0] student_opposite = Some 0"
  by (simp add: student_confidence_def student_opposite_def image_opposite_def confidence_of_def
        cosine_similarity_def linalg_norm_def sum_squares_def dot_def)

lemma confidence_opposite2: "student_confidence [1, 0, 0, 0] student_opposite2 = Some 0"
  by (simp add: student_confidence_def student_opposite2_def image_opposite2_def confidence_of_def
        cosine_similarity_def linalg_norm_def sum_squares_def dot_def)

lemma registered_concrete:
  "face_image student_20 \<noteq> None" "face_image student_40 \<noteq> None"
  "face_image student_50 \<noteq> None" "face_image student_50b \<noteq> None"
  "face_image student_corrupt \<noteq> None" "face_image student_opposite \<noteq> None"
  "face_image student_opposite2 \<noteq> None"
  by (simp_all add: student_20_def student_40_def student_50_def student_50b_def
        student_corrupt_def student_opposite_def student_opposite2_def)

lemma env_of_simps:
  "threshold (env_of thr ss) = thr" "db (env_of thr ss) = ss"
  "init_face_analyzer (env_of thr ss) = Inr ()"
  "start_time (env_of thr ss) = 100" "end_time (env_of thr ss) = 103"
  by (simp_all add: env_of_def init_face_analyzer_def)

lemma request_of_simp: "req_image (request_of img) = Some img"
  by (simp add: request_of_def)

text \<open>One step of the scan at a student whose confidence is known.\<close>

lemma scan_gallery_step:
  assumes "face_image s \<noteq> None"
  shows "scan_gallery e (s # ss) st =
           scan_gallery e ss
             (st\<lparr>gallery_calls := gallery_calls st @ readable_images [s],
                 highest_confidence := (case student_confidence e s of
                     None \<Rightarrow> highest_confidence st
                   | Some c \<Rightarrow> if highest_confidence st < c then c else highest_confidence st),
                 best_match := (case student_confidence e s of
                     None \<Rightarrow> best_match st
                   | Some c \<Rightarrow> if highest_confidence st < c then Some s else best_match st)\<rparr>)"
proof -
  from assms obtain img where img: "face_image s = Some img" by blast
  have "compare_student e s img st =
          st\<lparr>gallery_calls := gallery_calls st @ readable_images [s],
             highest_confidence := (case student_confidence e s of
                 None \<Rightarrow> highest_confidence st
               | Some c \<Rightarrow> if highest_confidence st < c then c else highest_confidence st),
             best_match := (case student_confidence e s of
                 None \<Rightarrow> best_match st
               | Some c \<Rightarrow> if highest_confidence st < c then Some s else best_match st)\<rparr>"
    by (rule scan_state.equality)
       (simp_all add: compare_student_highest compare_student_best compare_student_calls
          student_confidence_def img readable_images_def)
  then show ?thesis using img by simp
qed

lemma face_image_concrete:
  "face_image student_20 = Some image_20" "face_image student_40 = Some image_40"
  "face_image student_50 = Some image_50" "face_image student_50b = Some image_50b"
  "face_image student_corrupt = Some Unreadable"
  "face_image student_opposite = Some image_opposite"
  "face_image student_opposite2 = Some image_opposite2"
  by (simp_all add: student_20_def student_40_def student_50_def student_50b_def
        student_corrupt_def student_opposite_def student_opposite2_def)

lemma readable_concrete:
  "image_20 \<noteq> Unreadable" "image_40 \<noteq> Unreadable" "image_50 \<noteq> Unreadable"
  "image_50b \<noteq> Unreadable" "image_opposite \<noteq> Unreadable" "image_opposite2 \<noteq> Unreadable"
  by (simp_all add: image_20_def image_40_def image_50_def image_50b_def
        image_opposite_def image_opposite2_def)

lemmas concrete_env = students_def env_of_simps request_of_simp registered_concrete

lemmas concrete_scan =
  scan_gallery_step confidence_20 confidence_40 confidence_50
  confidence_50b confidence_corrupt confidence_opposite confidence_opposite2
  scan_init_def readable_images_def face_image_concrete readable_concrete

lemma recognize_60:
  "recognize (env_of strict_threshold [student_20, student_50]) (request_of probe_image) world0 =
     (NoMatch (1 / 2),
      \<lparr>logs = [\<lparr>log_student = None, log_confidence = 1 / 2, log_success = False,
                 log_image = probe_image, log_processing_time = Some 3\<rparr>],
       engine_calls = [probe_image, image_20, image_50]\<rparr>)"
  by (simp del: scan_gallery.simps(2)
        add: recognize_def concrete_env probe_image_def probe_face_def concrete_scan
          decide_def create_log_def call_engine_def world0_def strict_threshold_def)

subsection \<open>Audit records\<close>

text \<open>
  C4. The claim is that every invocation of the endpoint, whatever its outcome, writes exactly
  one \<^verbatim>\<open>RecognitionLog\<close> row. The code returns from the empty-gallery check (lines
  213--221) and from the probe error handler (lines 249--257) without creating a row: a
  request against an empty gallery answers \<open>NoGallery\<close> and a request with an undecodable
  probe answers \<open>ServerError\<close>, and neither adds a row to the audit table.
\<close>

theorem no_gallery_and_error_write_no_log:
  "fst (recognize (env_of default_threshold []) (request_of probe_image) world0) = NoGallery
   \<and> new_logs (env_of default_threshold []) (request_of probe_image) world0 = []
   \<and> fst (recognize (env_of default_threshold [student_50]) (request_of Unreadable) world0) = ServerError
   \<and> new_logs (env_of default_threshold [student_50]) (request_of Unreadable) world0 = []"
  by (simp add: new_logs_def recognize_def concrete_env)

text \<open>
  C5 as stated fails: with an empty gallery the endpoint answers \<open>NoGallery\<close> before it looks
  at the probe, also for a probe without a face.
\<close>

theorem no_face_with_empty_gallery_counterexample:
  "fst (recognize (env_of default_threshold []) (request_of (Detects [])) world0) = NoGallery
   \<and> fst (recognize (env_of default_threshold []) (request_of (Detects [])) world0) \<noteq> NoFace"
  by (simp add: recognize_def concrete_env)

text \<open>
  C5, amended. For every probe on which the analyzer runs and detects zero faces, when at
  least one student has a registered face image, the outcome is \<open>NoFace\<close> whatever the
  registered images are, and exactly one audit record is written for the attempt, with
  \<open>success = False\<close>, \<open>confidence = 0\<close> and no student.
\<close>

theorem no_face_outcome:
  assumes "req_image req = Some (Detects [])"
      and "students e \<noteq> []"
      and "init_face_analyzer e = Inr ()"
  shows "fst (recognize e req w) = NoFace
         \<and> new_logs e req w =
             [\<lparr>log_student = None, log_confidence = 0, log_success = False,
               log_image = Detects [], log_processing_time = None\<rparr>]"
  using assms by (simp add: recognize_def new_logs_def create_log_def call_engine_def)

theorem no_face_outcome_witness:
  "req_image (request_of (Detects [])) = Some (Detects [])
   \<and> students (env_of default_threshold [student_50, student_corrupt]) \<noteq> []
   \<and> init_face_analyzer (env_of default_threshold [student_50, student_corrupt]) = Inr ()
   \<and> fst (recognize (env_of default_threshold [student_50, student_corrupt])
             (request_of (Detects [])) world0) = NoFace
   \<and> new_logs (env_of default_threshold [student_50, student_corrupt]) (request_of (Detects [])) world0 =
       [\<lparr>log_student = None, log_confidence = 0, log_success = False,
         log_image = Detects [], log_processing_time = None\<rparr>]"
proof -
  have h1: "req_image (request_of (Detects [])) = Some (Detects [])"
    by (simp add: request_of_simp)
  have h2: "students (env_of default_threshold [student_50, student_corrupt]) \<noteq> []"
    by (simp add: concrete_env)
  have h3: "init_face_analyzer (env_of default_threshold [student_50, student_corrupt]) = Inr ()"
    by (simp add: env_of_simps)
  from no_face_outcome [OF h1 h2 h3, of world0] h1 h2 h3 show ?thesis by blast
qed

text \<open>
  C8. The claim is that the processing time is on the audit record also when the outcome is
  \<open>NoFace\<close>. The row created at lines 266--271 is built without
  \<^verbatim>\<open>processing_time\<close>, so the nullable column stays empty: for a probe without a face
  against a non-empty gallery the record's processing time is \<open>None\<close>.
\<close>

theorem no_face_log_lacks_processing_time:
  "fst (recognize (env_of default_threshold [student_50]) (request_of (Detects [])) world0) = NoFace
   \<and> map log_processing_time
       (new_logs (env_of default_threshold [student_50]) (request_of (Detects [])) world0) = [None]"
  by (simp add: new_logs_def recognize_def concrete_env create_log_def call_engine_def world0_def)

text \<open>On the paths that reach the scan the record carries the difference of the two clock
  readings of lines 224 and 324.\<close>

lemma scan_log_processing_time:
  assumes "req_image req = Some (Detects (f # fs))"
      and "students e \<noteq> []"
      and "init_face_analyzer e = Inr ()"
  shows "map log_processing_time (new_logs e req w) = [Some (end_time e - start_time e)]"
proof -
  from recognize_reaches_scan [OF assms, of w] obtain st where
    "recognize e req w = decide e (Detects (f # fs)) st
        (w\<lparr>engine_calls := engine_calls w @ Detects (f # fs) # gallery_calls st\<rparr>)"
    by blast
  then show ?thesis by (simp add: new_logs_def logs_decide)
qed

text \<open>
  C10. Every audit record that a request writes with \<open>success = False\<close>, and every record
  written by a request whose outcome is not \<open>Accepted\<close>, has no student: the best-scoring
  candidate is not stored in a failed record, also when one exists.
\<close>

theorem failed_log_has_no_student:
  assumes "r \<in> set (new_logs e req w)"
      and "\<not> log_success r \<or> (\<forall>s c. fst (recognize e req w) \<noteq> Accepted s c)"
  shows "log_student r = None"
proof -
  from recognize_logs [of e req w] obtain new where
    l: "logs (snd (recognize e req w)) = logs w @ new" and
    n: "\<forall>r\<in>set new. \<not> log_success r \<or> (\<forall>s c. fst (recognize e req w) \<noteq> Accepted s c)
            \<longrightarrow> log_student r = None"
    by blast
  from l have "new_logs e req w = new" by (rule new_logs_append)
  with assms n show ?thesis by blast
qed

text \<open>The witness: the best candidate scores 0.50 under a threshold of 0.60; the record keeps
  the confidence and drops the student.\<close>

theorem failed_log_has_no_student_witness:
  "hd (new_logs (env_of strict_threshold [student_20, student_50]) (request_of probe_image) world0)
     \<in> set (new_logs (env_of strict_threshold [student_20, student_50]) (request_of probe_image) world0)
   \<and> \<not> log_success
         (hd (new_logs (env_of strict_threshold [student_20, student_50]) (request_of probe_image) world0))
   \<and> log_confidence
         (hd (new_logs (env_of strict_threshold [student_20, student_50]) (request_of probe_image) world0))
       = 1 / 2
   \<and> log_student
         (hd (new_logs (env_of strict_threshold [student_20, student_50]) (request_of probe_image) world0))
       = None"
proof -
  let ?n = "new_logs (env_of strict_threshold [student_20, student_50]) (request_of probe_image) world0"
  have n: "?n = [\<lparr>log_student = None, log_confidence = 1 / 2, log_success = False,
                  log_image = probe_image, log_processing_time = Some 3\<rparr>]"
    by (simp add: new_logs_def recognize_60) (simp add: world0_def)
  have h1: "hd ?n \<in> set ?n" by (simp add: n)
  have h2: "\<not> log_success (hd ?n)" by (simp add: n)
  have c: "log_confidence (hd ?n) = 1 / 2" by (simp add: n)
  from failed_log_has_no_student [OF h1 disjI1 [OF h2]] h1 h2 c show ?thesis by blast
qed

lemma fst_recognize_at_scan:
  assumes "req_image req = Some (Detects (f # fs))"
      and "students e \<noteq> []"
      and "init_face_analyzer e = Inr ()"
      and "scan_gallery (embedding (max_det_score f fs)) (students e) scan_init = Inr st"
  shows "fst (recognize e req w) =
           (case best_match st of
              Some bm \<Rightarrow> if threshold e \<le> highest_confidence st
                         then Accepted bm (highest_confidence st)
                         else NoMatch (highest_confidence st)
            | None \<Rightarrow> NoMatch 0)"
  using assms by (simp add: recognize_def fst_decide Let_def)

subsection \<open>The decision after the scan\<close>






subsection \<open>Tie-break\<close>

text \<open>
  C3 as stated fails when the maximum confidence is 0: two candidates whose embeddings point
  exactly away from the probe tie at confidence 0, the maximum of the gallery, and the scan
  selects neither, because the tracker starts at 0 and is replaced only by a strictly larger
  confidence.
\<close>

theorem tie_at_zero_counterexample:
  "student_confidence [1, 0, 0, 0] student_opposite = Some 0
   \<and> student_confidence [1, 0, 0, 0] student_opposite2 = Some 0
   \<and> scan_gallery [1, 0, 0, 0] [student_opposite, student_opposite2] scan_init =
       Inr \<lparr>best_match = None, highest_confidence = 0,
            gallery_calls = [image_opposite, image_opposite2]\<rparr>"
  by (simp del: scan_gallery.simps(2) add: concrete_scan registered_concrete)

text \<open>
  C3, amended. For a fixed probe embedding and a fixed ordered gallery of registered
  students, when the maximum candidate confidence is strictly positive, the scan selects the
  earliest candidate that attains it (every candidate before it is strictly lower, later
  candidates may tie), and returns that confidence. One step of the scan replaces the tracked
  best only when the candidate's confidence is strictly above the tracked confidence. The scan
  is a function of the probe embedding and the gallery, so repeated runs agree.
\<close>

theorem earliest_maximum_selected:
  assumes "\<forall>t\<in>set (pre @ s # post). face_image t \<noteq> None"
      and "student_confidence e s = Some m"
      and "0 < m"
      and "\<forall>t\<in>set pre. \<forall>c. student_confidence e t = Some c \<longrightarrow> c < m"
      and "\<forall>t\<in>set post. \<forall>c. student_confidence e t = Some c \<longrightarrow> c \<le> m"
  shows "(\<exists>st. scan_gallery e (pre @ s # post) scan_init = Inr st
            \<and> best_match st = Some s \<and> highest_confidence st = m)
         \<and> (\<forall>t img st0. best_match (compare_student e t img st0) \<noteq> best_match st0
               \<longrightarrow> (\<exists>c. image_confidence e img = Some c \<and> highest_confidence st0 < c
                        \<and> highest_confidence (compare_student e t img st0) = c))"
proof -
  obtain st where st: "scan_gallery e (pre @ s # post) scan_init = Inr st"
    using scan_gallery_returns [OF assms(1)] by blast
  have "highest_confidence scan_init < m" using assms(3) by (simp add: scan_init_def)
  from scan_gallery_first_maximum [OF st assms(2) this assms(4) assms(5)]
  have sel: "best_match st = Some s \<and> highest_confidence st = m" .
  have step: "\<forall>t img st0. best_match (compare_student e t img st0) \<noteq> best_match st0
               \<longrightarrow> (\<exists>c. image_confidence e img = Some c \<and> highest_confidence st0 < c
                        \<and> highest_confidence (compare_student e t img st0) = c)"
    by (auto simp: compare_student_best compare_student_highest split: option.splits if_splits)
  from st sel step show ?thesis by blast
qed

lemma scan_tie:
  "scan_gallery [1, 0, 0, 0] [student_20, student_50, student_50b, student_40] scan_init =
     Inr \<lparr>best_match = Some student_50, highest_confidence = 1 / 2,
          gallery_calls = [image_20, image_50, image_50b, image_40]\<rparr>"
  by (simp del: scan_gallery.simps(2) add: concrete_scan registered_concrete)

text \<open>The witness: candidates scoring 0.20, 0.50, 0.50 and 0.40, in this order; the first
  of the two that tie at 0.50 is selected.\<close>

theorem earliest_maximum_selected_witness:
  "student_confidence [1, 0, 0, 0] student_20 = Some (1 / 5)
   \<and> student_confidence [1, 0, 0, 0] student_50 = Some (1 / 2)
   \<and> student_confidence [1, 0, 0, 0] student_50b = Some (1 / 2)
   \<and> student_confidence [1, 0, 0, 0] student_40 = Some (2 / 5)
   \<and> (\<exists>st. scan_gallery [1, 0, 0, 0] ([student_20] @ student_50 # [student_50b, student_40])
                scan_init = Inr st
            \<and> best_match st = Some student_50 \<and> highest_confidence st = 1 / 2)"
proof -
  have h1: "\<forall>t\<in>set ([student_20] @ student_50 # [student_50b, student_40]). face_image t \<noteq> None"
    by (simp add: face_image_concrete)
  have h2: "student_confidence [1, 0, 0, 0] student_50 = Some (1 / 2)" by (rule confidence_50)
  have h3: "(0 :: real) < 1 / 2" by simp
  have h4: "\<forall>t\<in>set [student_20]. \<forall>c. student_confidence [1, 0, 0, 0] t = Some c \<longrightarrow> c < 1 / 2"
    by (simp add: confidence_20)
  have h5: "\<forall>t\<in>set [student_50b, student_40]. \<forall>c.
          student_confidence [1, 0, 0, 0] t = Some c \<longrightarrow> c \<le> 1 / 2"
    by (simp add: confidence_50b confidence_40)
  from earliest_maximum_selected [OF h1 h2 h3 h4 h5]
    confidence_20 confidence_50 confidence_50b confidence_40
  show ?thesis by blast
qed

subsection \<open>Acceptance needs a positive confidence\<close>





subsection \<open>Failures of single gallery entries\<close>

lemma bad_reference_no_confidence: "bad_reference img \<Longrightarrow> image_confidence e img = None"
  by (cases img) simp_all

lemma scan_gallery_skip:
  assumes reg: "\<forall>t\<in>set (pre @ post). face_image t \<noteq> None"
      and b: "face_image b = Some img"
      and none: "image_confidence e img = None"
  shows "\<exists>st st'. scan_gallery e (pre @ b # post) st0 = Inr st
            \<and> scan_gallery e (pre @ post) st0 = Inr st'
            \<and> best_match st = best_match st'
            \<and> highest_confidence st = highest_confidence st'"
proof -
  from reg have rp: "\<forall>t\<in>set pre. face_image t \<noteq> None"
    and rq: "\<forall>t\<in>set post. face_image t \<noteq> None" by auto
  obtain st1 where st1: "scan_gallery e pre st0 = Inr st1"
    using scan_gallery_returns [OF rp] by blast
  let ?st2 = "compare_student e b img st1"
  obtain st where st: "scan_gallery e post ?st2 = Inr st"
    using scan_gallery_returns [OF rq] by blast
  obtain st' where st': "scan_gallery e post st1 = Inr st'"
    using scan_gallery_returns [OF rq] by blast
  have same: "best_match ?st2 = best_match st1" "highest_confidence ?st2 = highest_confidence st1"
    using none by (simp_all add: compare_student_best compare_student_highest)
  have l: "scan_gallery e (pre @ b # post) st0 = Inr st"
    using st1 st b by (simp add: scan_gallery_append)
  have r: "scan_gallery e (pre @ post) st0 = Inr st'"
    using st1 st' by (simp add: scan_gallery_append)
  from scan_gallery_same_selection [OF st st' same] l r show ?thesis by blast
qed

text \<open>
  C6. A gallery entry whose reference image cannot be decoded, makes the engine raise or
  shows no face is skipped: the scan over the gallery with the entry returns, and selects the
  same candidate with the same confidence as the scan over the gallery without it. A request
  that reaches such a scan ends in \<open>NoMatch\<close> or \<open>Accepted\<close>, never in a request-level
  error, and when every entry of the gallery is bad the outcome is \<open>NoMatch\<close> with
  confidence 0.
\<close>

theorem bad_references_skipped:
  assumes "\<forall>t\<in>set (pre @ post). face_image t \<noteq> None"
      and "face_image b = Some img"
      and "bad_reference img"
  shows "(\<exists>st st'. scan_gallery e (pre @ b # post) scan_init = Inr st
            \<and> scan_gallery e (pre @ post) scan_init = Inr st'
            \<and> best_match st = best_match st'
            \<and> highest_confidence st = highest_confidence st')
         \<and> (\<forall>env req w f fs.
               req_image req = Some (Detects (f # fs)) \<and> init_face_analyzer env = Inr ()
               \<and> students env = pre @ b # post
               \<longrightarrow> (\<exists>c. fst (recognize env req w) = NoMatch c)
                   \<or> (\<exists>s c. fst (recognize env req w) = Accepted s c))
         \<and> (\<forall>env req w f fs.
               req_image req = Some (Detects (f # fs)) \<and> init_face_analyzer env = Inr ()
               \<and> students env = pre @ b # post
               \<and> (\<forall>t\<in>set (pre @ post). \<exists>i. face_image t = Some i \<and> bad_reference i)
               \<longrightarrow> fst (recognize env req w) = NoMatch 0)"
proof -
  have skip: "\<exists>st st'. scan_gallery e (pre @ b # post) scan_init = Inr st
            \<and> scan_gallery e (pre @ post) scan_init = Inr st'
            \<and> best_match st = best_match st'
            \<and> highest_confidence st = highest_confidence st'"
    using assms(1,2) bad_reference_no_confidence [OF assms(3)] by (rule scan_gallery_skip)
  have outcome: "(\<exists>c. fst (recognize env req w) = NoMatch c)
                   \<or> (\<exists>s c. fst (recognize env req w) = Accepted s c)"
    if r: "req_image req = Some (Detects (f # fs))" and i: "init_face_analyzer env = Inr ()"
      and g: "students env = pre @ b # post" for env req w f fs
  proof -
    from g have ne: "students env \<noteq> []" by simp
    obtain st where st: "scan_gallery (embedding (max_det_score f fs)) (students env) scan_init = Inr st"
      using scan_gallery_returns [OF students_registered] by blast
    from fst_recognize_at_scan [OF r ne i st, of w] show ?thesis
      by (simp split: option.splits)
  qed
  have allbad: "fst (recognize env req w) = NoMatch 0"
    if r: "req_image req = Some (Detects (f # fs))" and i: "init_face_analyzer env = Inr ()"
      and g: "students env = pre @ b # post"
      and bad: "\<forall>t\<in>set (pre @ post). \<exists>i. face_image t = Some i \<and> bad_reference i"
    for env req w f fs
  proof -
    let ?emb = "embedding (max_det_score f fs)"
    from g have ne: "students env \<noteq> []" by simp
    obtain st where st: "scan_gallery ?emb (students env) scan_init = Inr st"
      using scan_gallery_returns [OF students_registered] by blast
    have "student_confidence ?emb t = None" if "t \<in> set (students env)" for t
    proof -
      from that g bad assms(2,3) obtain i where "face_image t = Some i" "bad_reference i"
        by auto
      then show ?thesis by (simp add: student_confidence_def bad_reference_no_confidence)
    qed
    with scan_from_init [OF st] have "best_match st = None" by fastforce
    with fst_recognize_at_scan [OF r ne i st, of w] show ?thesis by simp
  qed
  from skip outcome allbad show ?thesis by blast
qed

lemma scan_20_40:
  "scan_gallery [1, 0, 0, 0] [student_20, student_40] scan_init =
     Inr \<lparr>best_match = Some student_40, highest_confidence = 2 / 5,
          gallery_calls = [image_20, image_40]\<rparr>"
  by (simp del: scan_gallery.simps(2) add: concrete_scan registered_concrete)

text \<open>The witness is the scenario of the specification: three entries, the first corrupt,
  the others scoring 0.20 and 0.40. The best is 0.40, one entry is skipped, and the engine is
  called on two reference images. A gallery of the corrupt entry alone gives \<open>NoMatch 0\<close>.\<close>

theorem bad_references_skipped_witness:
  "face_image student_20 = Some image_20
   \<and> face_image student_40 = Some image_40
   \<and> face_image student_corrupt = Some Unreadable
   \<and> bad_reference Unreadable
   \<and> (\<exists>st. scan_gallery [1, 0, 0, 0] ([] @ student_corrupt # [student_20, student_40]) scan_init
               = Inr st
          \<and> best_match st = Some student_40 \<and> highest_confidence st = 2 / 5
          \<and> gallery_calls st = [image_20, image_40])
   \<and> length (filter (\<lambda>s. student_confidence [1, 0, 0, 0] s = None)
               [student_corrupt, student_20, student_40]) = 1
   \<and> req_image (request_of probe_image) = Some (Detects (probe_face # []))
   \<and> init_face_analyzer (env_of default_threshold [student_corrupt]) = Inr ()
   \<and> students (env_of default_threshold [student_corrupt]) = [] @ student_corrupt # []
   \<and> fst (recognize (env_of default_threshold [student_corrupt]) (request_of probe_image) world0)
       = NoMatch 0"
proof -
  let ?one = "env_of default_threshold [student_corrupt]"
  have h1: "\<forall>t\<in>set ([] @ [student_20, student_40]). face_image t \<noteq> None"
    by (simp add: face_image_concrete)
  have h1': "\<forall>t\<in>set ([] @ []). face_image t \<noteq> None" by simp
  have h2: "face_image student_corrupt = Some Unreadable" by (simp add: face_image_concrete)
  have h3: "bad_reference Unreadable" by simp
  from bad_references_skipped [OF h1 h2 h3, of "[1, 0, 0, 0]"] obtain st st' where
    l: "scan_gallery [1, 0, 0, 0] ([] @ student_corrupt # [student_20, student_40]) scan_init = Inr st"
    and r: "scan_gallery [1, 0, 0, 0] ([] @ [student_20, student_40]) scan_init = Inr st'"
    and same: "best_match st = best_match st'" "highest_confidence st = highest_confidence st'"
    by blast
  from r have st': "st' = \<lparr>best_match = Some student_40, highest_confidence = 2 / 5,
          gallery_calls = [image_20, image_40]\<rparr>"
    by (simp del: scan_gallery.simps(2) add: scan_20_40)
  have calls: "gallery_calls st = [image_20, image_40]"
    using scan_gallery_calls [OF l]
    by (simp add: scan_init_def readable_images_def face_image_concrete readable_concrete)
  have ex: "\<exists>st. scan_gallery [1, 0, 0, 0] ([] @ student_corrupt # [student_20, student_40]) scan_init
               = Inr st
          \<and> best_match st = Some student_40 \<and> highest_confidence st = 2 / 5
          \<and> gallery_calls st = [image_20, image_40]"
    using l same st' calls by simp
  have skipped: "length (filter (\<lambda>s. student_confidence [1, 0, 0, 0] s = None)
               [student_corrupt, student_20, student_40]) = 1"
    by (simp add: confidence_corrupt confidence_20 confidence_40)
  have g1: "req_image (request_of probe_image) = Some (Detects (probe_face # []))"
    by (simp add: request_of_simp probe_image_def)
  have g2: "init_face_analyzer ?one = Inr ()" by (simp add: env_of_simps)
  have g3: "students ?one = [] @ student_corrupt # []" by (simp add: concrete_env)
  have g4: "\<forall>t\<in>set ([] @ []). \<exists>i. face_image t = Some i \<and> bad_reference i" by simp
  from bad_references_skipped [OF h1' h2 h3, of "[1, 0, 0, 0]"] g1 g2 g3 g4
  have nm: "fst (recognize ?one (request_of probe_image) world0) = NoMatch 0"
    by blast
  from face_image_concrete(1,2) h2 h3 ex skipped g1 g2 g3 nm show ?thesis by blast
qed

subsection \<open>Engine invocations\<close>





end
